theory Spec2Isabelle
  imports Complex_Main
begin

section \<open>Python values\<close>

text \<open>
  The service receives JSON. A float is a finite value or one of the three special
  values that Python's JSON reader accepts (\<open>NaN\<close>, \<open>Infinity\<close>, \<open>-Infinity\<close>);
  finite floats are read as the real numbers they denote. Strings are lists of
  \<open>char\<close>, each read as the code point below 256 that it stands for.
\<close>

datatype pyfloat = Finite real | NaN | PosInf | NegInf

datatype pyval =
    PNone
  | PBool bool
  | PInt int
  | PFloat pyfloat
  | PStr string
  | PList "pyval list"
  | PDict "(string \<times> pyval) list"

datatype exn = ValueError string | OtherError string

type_synonym request = "string \<rightharpoonup> pyval"

text \<open>\<open>data.get(k, dflt)\<close>.\<close>

definition get :: "request \<Rightarrow> string \<Rightarrow> pyval \<Rightarrow> pyval" where
  "get d k dflt = (case d k of None \<Rightarrow> dflt | Some v \<Rightarrow> v)"

text \<open>Truth value of an object, as \<open>if s\<close> and \<open>not s\<close> test it.\<close>

fun py_truthy :: "pyval \<Rightarrow> bool" where
  "py_truthy PNone = False"
| "py_truthy (PBool b) = b"
| "py_truthy (PInt i) = (i \<noteq> 0)"
| "py_truthy (PFloat (Finite r)) = (r \<noteq> 0)"
| "py_truthy (PFloat f) = True"
| "py_truthy (PStr s) = (s \<noteq> [])"
| "py_truthy (PList xs) = (xs \<noteq> [])"
| "py_truthy (PDict kvs) = (kvs \<noteq> [])"

text \<open>\<open>str(n)\<close> for an integer: its decimal digits, with a sign when negative.\<close>

function str_nat :: "nat \<Rightarrow> string" where
  "str_nat n = (if n < 10 then [''0123456789'' ! n]
                else str_nat (n div 10) @ [''0123456789'' ! (n mod 10)])"
  by pat_completeness auto
termination
  by (relation "measure id") auto

declare str_nat.simps [simp del]

definition str_int :: "int \<Rightarrow> string" where
  "str_int i = (if i < 0 then CHR ''-'' # str_nat (nat (- i)) else str_nat (nat i))"

text \<open>
  \<open>str(s)\<close>. The printed form of a float, a list or a dict is the work of the Python
  runtime; it is the parameter \<open>rp\<close> of everything that prints a value.
\<close>

fun py_str :: "(pyval \<Rightarrow> string) \<Rightarrow> pyval \<Rightarrow> string" where
  "py_str rp (PStr s) = s"
| "py_str rp PNone = ''None''"
| "py_str rp (PBool b) = (if b then ''True'' else ''False'')"
| "py_str rp (PInt i) = str_int i"
| "py_str rp v = rp v"

section \<open>Strings\<close>

text \<open>\<open>str.isspace\<close>, which is also the class \<open>\s\<close> of \<open>re\<close>, below code point 256.\<close>

definition is_space :: "char \<Rightarrow> bool" where
  "is_space c = (let n = (of_char c :: nat)
                 in (9 \<le> n \<and> n \<le> 13) \<or> (28 \<le> n \<and> n \<le> 32) \<or> n = 133 \<or> n = 160)"

definition lower_char :: "char \<Rightarrow> char" where
  "lower_char c = (let n = (of_char c :: nat)
                   in if (65 \<le> n \<and> n \<le> 90) \<or> (192 \<le> n \<and> n \<le> 222 \<and> n \<noteq> 215)
                      then char_of (n + 32) else c)"

definition lower :: "string \<Rightarrow> string" where
  "lower s = map lower_char s"

definition strip :: "string \<Rightarrow> string" where
  "strip s = rev (dropWhile is_space (rev (dropWhile is_space s)))"

text \<open>The class \<open>[\s_]\<close>.\<close>

definition is_sep :: "char \<Rightarrow> bool" where
  "is_sep c = (is_space c \<or> c = CHR ''_'')"

text \<open>\<open>re.sub(r"[\s_]+", " ", s)\<close>: every maximal run of separators becomes one space.\<close>

function collapse_seps :: "string \<Rightarrow> string" where
  "collapse_seps [] = []"
| "collapse_seps (c # cs) =
     (if is_sep c then CHR '' '' # collapse_seps (dropWhile is_sep cs)
      else c # collapse_seps cs)"
  by pat_completeness auto
termination
  by (relation "measure length") (auto simp: length_dropWhile_le less_Suc_eq_le)

text \<open>The class \<open>[a-z0-9 ]\<close>.\<close>

definition is_kept :: "char \<Rightarrow> bool" where
  "is_kept c = (let n = (of_char c :: nat)
                in (97 \<le> n \<and> n \<le> 122) \<or> (48 \<le> n \<and> n \<le> 57) \<or> n = 32)"

text \<open>\<open>re.sub(r"[^a-z0-9 ]+", "", s)\<close>: every character outside the class is removed.\<close>

definition drop_others :: "string \<Rightarrow> string" where
  "drop_others s = filter is_kept s"

text \<open>\<open>_norm\<close> of \<open>predictor.py\<close>, on the string \<open>str(s)\<close>.\<close>

definition norm_text :: "string \<Rightarrow> string" where
  "norm_text s = drop_others (collapse_seps (strip (lower s)))"

text \<open>\<open>normalize_symptom\<close> of \<open>validators.py\<close>.\<close>

definition normalize_symptom :: "string \<Rightarrow> string" where
  "normalize_symptom s = strip (drop_others (collapse_seps (lower (strip s))))"

definition endswith :: "string \<Rightarrow> string \<Rightarrow> bool" where
  "endswith s suf = (length suf \<le> length s \<and> drop (length s - length suf) s = suf)"

text \<open>\<open>base[:-k]\<close> for \<open>k > 0\<close>.\<close>

definition chop :: "nat \<Rightarrow> string \<Rightarrow> string" where
  "chop k s = take (length s - k) s"

text \<open>\<open>_variants\<close>: the values the generator yields, in order.\<close>

definition variants :: "string \<Rightarrow> string list" where
  "variants base =
     base #
     (if endswith base ''ing'' then [chop 3 base] else []) @
     (if endswith base ''ed'' then [chop 2 base] else []) @
     (if endswith base ''s'' then [chop 1 base] else [])"

section \<open>The vocabulary index and the matching loop\<close>

type_synonym vindex = "string \<rightharpoonup> nat"

text \<open>The inner loop of the index build: \<open>if v not in vocab_index: vocab_index[v] = idx\<close>.\<close>

fun add_variants :: "nat \<Rightarrow> string list \<Rightarrow> vindex \<Rightarrow> vindex" where
  "add_variants i [] m = m"
| "add_variants i (v # vs) m =
     add_variants i vs (if m v = None then m(v \<mapsto> i) else m)"

text \<open>The outer loop over \<open>enumerate(self.symptom_vocabulary)\<close>, from position \<open>i\<close> on.\<close>

fun build_from :: "nat \<Rightarrow> string list \<Rightarrow> vindex \<Rightarrow> vindex" where
  "build_from i [] m = m"
| "build_from i (s # ss) m = build_from (Suc i) ss (add_variants i (variants (norm_text s)) m)"

definition vocab_index :: "string list \<Rightarrow> vindex" where
  "vocab_index V = build_from 0 V Map.empty"

text \<open>
  The search \<open>for v in _variants(key): if v in vocab_index: hit = v; break\<close>, returning
  the hit together with \<open>vocab_index[hit]\<close>.
\<close>

fun first_hit :: "vindex \<Rightarrow> string list \<Rightarrow> (string \<times> nat) option" where
  "first_hit idx [] = None"
| "first_hit idx (v # vs) =
     (case idx v of Some p \<Rightarrow> Some (v, p) | None \<Rightarrow> first_hit idx vs)"

text \<open>The position that one symptom string sets, if any.\<close>

definition lookup_symptom :: "vindex \<Rightarrow> string \<Rightarrow> nat option" where
  "lookup_symptom idx s = map_option snd (first_hit idx (variants (norm_text s)))"

record match_state =
  feature_vec :: "real list"
  matched :: "pyval list"
  unmatched :: "pyval list"

text \<open>The loop \<open>for s in data.get('symptoms', [])\<close>.\<close>

fun match_symptoms :: "(pyval \<Rightarrow> string) \<Rightarrow> vindex \<Rightarrow> pyval list \<Rightarrow> match_state \<Rightarrow> match_state" where
  "match_symptoms rp idx [] st = st"
| "match_symptoms rp idx (s # ss) st =
     (if \<not> py_truthy s then match_symptoms rp idx ss st
      else (case first_hit idx (variants (norm_text (py_str rp s))) of
              Some (hit, p) \<Rightarrow>
                match_symptoms rp idx ss
                  (st\<lparr>feature_vec := (feature_vec st)[p := 1], matched := matched st @ [s]\<rparr>)
            | None \<Rightarrow>
                match_symptoms rp idx ss (st\<lparr>unmatched := unmatched st @ [s]\<rparr>)))"

definition init_state :: "nat \<Rightarrow> match_state" where
  "init_state n = \<lparr>feature_vec = replicate n 0, matched = [], unmatched = []\<rparr>"

section \<open>Input validation (\<open>validators.py\<close>)\<close>

definition SUPPORTED_SYMPTOMS :: "string list" where
  "SUPPORTED_SYMPTOMS =
     [''chest pain'', ''shortness of breath'', ''fatigue'', ''dizziness'',
      ''headache'', ''fever'', ''cough'', ''runny nose'', ''sore throat'',
      ''nausea'', ''vomiting'', ''diarrhea'', ''loss of appetite'', ''abdominal pain'',
      ''joint pain'', ''muscle pain'', ''body aches'', ''body pain'', ''rash'', ''chills'',
      ''congestion'', ''dry mouth'', ''weakness'', ''sweating'', ''tremor'', ''anxiety'',
      ''insomnia'', ''back pain'', ''neck pain'', ''shoulder pain'', ''arm pain'',
      ''leg pain'', ''numbness'', ''tingling'', ''itching'', ''bruising'', ''swelling'']"

text \<open>\<open>isinstance(v, (int, float))\<close>; a \<open>bool\<close> is an \<open>int\<close> in Python.\<close>

fun is_number :: "pyval \<Rightarrow> bool" where
  "is_number (PBool b) = True"
| "is_number (PInt i) = True"
| "is_number (PFloat f) = True"
| "is_number v = False"

text \<open>\<open>isinstance(s, (int, float, str))\<close>.\<close>

fun is_number_or_str :: "pyval \<Rightarrow> bool" where
  "is_number_or_str (PStr s) = True"
| "is_number_or_str v = is_number v"

text \<open>
  \<open>v < n\<close>, \<open>v > n\<close> and \<open>v == n\<close> for an integer literal \<open>n\<close>. The comparisons
  are reached for numbers only; every comparison with \<open>NaN\<close> is false.
\<close>

fun py_lt :: "pyval \<Rightarrow> int \<Rightarrow> bool" where
  "py_lt (PBool b) n = ((if b then 1 else 0) < n)"
| "py_lt (PInt i) n = (i < n)"
| "py_lt (PFloat (Finite r)) n = (r < of_int n)"
| "py_lt (PFloat NegInf) n = True"
| "py_lt v n = False"

fun py_gt :: "pyval \<Rightarrow> int \<Rightarrow> bool" where
  "py_gt (PBool b) n = ((if b then 1 else 0) > n)"
| "py_gt (PInt i) n = (i > n)"
| "py_gt (PFloat (Finite r)) n = (r > of_int n)"
| "py_gt (PFloat PosInf) n = True"
| "py_gt v n = False"

fun py_eq :: "pyval \<Rightarrow> int \<Rightarrow> bool" where
  "py_eq (PBool b) n = ((if b then 1 else 0) = n)"
| "py_eq (PInt i) n = (i = n)"
| "py_eq (PFloat (Finite r)) n = (r = of_int n)"
| "py_eq v n = False"

definition required_fields :: "string list" where
  "required_fields =
     [''age'', ''gender'', ''weight'', ''blood_pressure_systolic'',
      ''blood_pressure_diastolic'', ''glucose'', ''cholesterol'']"

definition check_required :: "request \<Rightarrow> exn + unit" where
  "check_required d =
     (case List.find (\<lambda>field. d field = None) required_fields of
        Some field \<Rightarrow> Inl (ValueError (''Missing required field: '' @ field))
      | None \<Rightarrow> Inr ())"

text \<open>\<open>if not isinstance(v, (int, float)) or v < lo or v > hi: raise ValueError(msg)\<close>.\<close>

definition check_range :: "pyval \<Rightarrow> int \<Rightarrow> int \<Rightarrow> string \<Rightarrow> exn + unit" where
  "check_range v lo hi msg =
     (if \<not> is_number v \<or> py_lt v lo \<or> py_gt v hi then Inl (ValueError msg) else Inr ())"

definition check_gender :: "request \<Rightarrow> exn + unit" where
  "check_gender d =
     (let gender = get d ''gender'' PNone
      in if \<not> (py_eq gender 0 \<or> py_eq gender 1)
         then Inl (ValueError ''Gender must be 0 (Female) or 1 (Male)'') else Inr ())"

text \<open>Sequencing of two statements, the first of which may raise.\<close>

definition and_then :: "exn + unit \<Rightarrow> exn + 'a \<Rightarrow> exn + 'a" where
  "and_then a b = (case a of Inl e \<Rightarrow> Inl e | Inr u \<Rightarrow> b)"

text \<open>The guard \<open>if not symptoms_only:\<close> around a check.\<close>

definition unless :: "bool \<Rightarrow> exn + unit \<Rightarrow> exn + unit" where
  "unless c chk = (if \<not> c then chk else Inr ())"

text \<open>
  \<open>symptoms_only = isinstance(symptoms, list) and (len(symptoms) > 0) and
  isinstance(symptoms[0], (str,))\<close>, with \<open>symptoms = data.get('symptoms', [])\<close>.
\<close>

definition symptoms_only :: "request \<Rightarrow> bool" where
  "symptoms_only d =
     (case get d ''symptoms'' (PList []) of
        PList xs \<Rightarrow> (case xs of [] \<Rightarrow> False | x # rest \<Rightarrow> (case x of PStr s \<Rightarrow> True | _ \<Rightarrow> False))
      | _ \<Rightarrow> False)"

definition unrecognized_symptom :: "pyval \<Rightarrow> bool" where
  "unrecognized_symptom s =
     (case s of
        PStr t \<Rightarrow> (let n = normalize_symptom t in n \<noteq> [] \<and> n \<notin> set SUPPORTED_SYMPTOMS)
      | _ \<Rightarrow> False)"

text \<open>
  The block from \<open>symptoms = data.get('symptoms', [])\<close> to the end of
  \<open>validate_prediction_input\<close>. The value returned is the list \<open>unrecognized\<close>; the
  warning is logged exactly when that list is not empty.
\<close>

definition check_symptoms :: "request \<Rightarrow> exn + pyval list" where
  "check_symptoms d =
     (let symptoms = get d ''symptoms'' (PList [])
      in if py_truthy symptoms then
           (case symptoms of
              PList xs \<Rightarrow>
                if length xs > 50 then Inl (ValueError ''Maximum 50 symptoms allowed'')
                else if \<not> list_all is_number_or_str xs
                then Inl (ValueError ''Each symptom must be a string or 0/1'')
                else Inr (filter unrecognized_symptom xs)
            | _ \<Rightarrow> Inl (ValueError ''Symptoms must be a list''))
         else Inr [])"

definition validate_prediction_input :: "request \<Rightarrow> exn + pyval list" where
  "validate_prediction_input d =
     (let so = symptoms_only d in
      and_then (unless so (check_required d))
     (and_then (unless so (check_range (get d ''age'' PNone) 0 150
                  ''Age must be a number between 0 and 150''))
     (and_then (unless so (check_gender d))
     (and_then (unless so (check_range (get d ''weight'' PNone) 20 300
                  ''Weight must be between 20 and 300 kg''))
     (and_then (unless so (check_range (get d ''blood_pressure_systolic'' PNone) 50 250
                  ''Systolic BP must be between 50 and 250''))
     (and_then (unless so (check_range (get d ''blood_pressure_diastolic'' PNone) 30 150
                  ''Diastolic BP must be between 30 and 150''))
     (and_then (unless so (check_range (get d ''glucose'' PNone) 40 400
                  ''Glucose must be between 40 and 400 mg/dL''))
     (and_then (unless so (check_range (get d ''cholesterol'' PNone) 50 500
                  ''Cholesterol must be between 50 and 500 mg/dL''))
     (check_symptoms d)))))))))"

text \<open>The loop of \<open>validate_batch_input\<close> over \<open>enumerate(predictions)\<close>, from index \<open>i\<close> on.\<close>

fun validate_each :: "nat \<Rightarrow> request list \<Rightarrow> exn + unit" where
  "validate_each i [] = Inr ()"
| "validate_each i (pred # rest) =
     (case validate_prediction_input pred of
        Inl (ValueError e) \<Rightarrow> Inl (ValueError (''Prediction '' @ str_nat i @ '': '' @ e))
      | Inl other \<Rightarrow> Inl other
      | Inr w \<Rightarrow> validate_each (Suc i) rest)"

definition validate_batch_input :: "request list \<Rightarrow> exn + unit" where
  "validate_batch_input predictions =
     (if length predictions = 0 then Inl (ValueError ''Predictions list cannot be empty'')
      else if length predictions > 100 then Inl (ValueError ''Maximum 100 predictions per batch'')
      else validate_each 0 predictions)"

section \<open>The predictor (\<open>predictor.py\<close>)\<close>

text \<open>
  The artifacts that \<open>DiseasePredictor.__init__\<close> loads. The classifier and the scaler
  are library objects: \<open>model_predict\<close> is \<open>model.predict(features)[0]\<close> (it may
  raise), \<open>model_predict_proba\<close> is present when the model has the attribute and gives
  \<open>None\<close> where the call raises, and the scaler's \<open>transform\<close> gives \<open>None\<close> where it
  raises. A label encoder is the list of its \<open>classes_\<close>, each as \<open>str\<close> prints it.
\<close>

record artifacts =
  symptom_vocabulary :: "string list"
  scaler :: "(pyval list \<Rightarrow> pyval list option) option"
  model_predict :: "pyval list \<Rightarrow> exn + int"
  model_predict_proba :: "(pyval list \<Rightarrow> real list option) option"
  label_encoders :: "string \<rightharpoonup> string list"
  model_type_name :: string

record prediction =
  predicted_disease :: string
  disease_code :: int
  confidence :: real
  confidence_percent :: real
  risk_level :: string
  used_symptoms_path :: bool
  matched_symptoms :: int
  model_type :: string
  top_k :: "(string \<times> real) list"

text \<open>The seven-element array of both vitals branches, as the list of its entries.\<close>

definition vitals_vector :: "request \<Rightarrow> pyval list" where
  "vitals_vector d =
     [get d ''age'' (PInt 0),
      get d ''gender'' (PInt 0),
      get d ''weight'' (PInt 0),
      get d ''blood_pressure_systolic'' (PInt 0),
      get d ''blood_pressure_diastolic'' (PInt 0),
      get d ''glucose'' (PInt 0),
      get d ''cholesterol'' (PInt 0)]"

text \<open>The float array \<open>feature_vec\<close> as a list of values.\<close>

definition as_floats :: "real list \<Rightarrow> pyval list" where
  "as_floats xs = map (\<lambda>x. PFloat (Finite x)) xs"

text \<open>The symptom loop of \<open>predict\<close> on a request whose \<open>symptoms\<close> is the list \<open>syms\<close>.\<close>

definition run_matching :: "(pyval \<Rightarrow> string) \<Rightarrow> string list \<Rightarrow> pyval list \<Rightarrow> match_state" where
  "run_matching rp V syms =
     match_symptoms rp (vocab_index V) syms (init_state (length V))"

text \<open>
  Lines 55 to 136 of \<open>predict\<close>: the feature array and the flag \<open>used_symptoms_path\<close>.
\<close>

definition select_features :: "(pyval \<Rightarrow> string) \<Rightarrow> artifacts \<Rightarrow> request \<Rightarrow> pyval list \<times> bool" where
  "select_features rp b d =
     (case get d ''symptoms'' PNone of
        PList syms \<Rightarrow>
          if symptom_vocabulary b \<noteq> [] then
            (let st = run_matching rp (symptom_vocabulary b) syms
             in if sum_list (feature_vec st) > 0 then (as_floats (feature_vec st), True)
                else (vitals_vector d, False))
          else (vitals_vector d, False)
      | _ \<Rightarrow> (vitals_vector d, False))"

text \<open>
  \<open>if self.scaler and not used_symptoms_path:\<close> with its \<open>try\<close>, whose handler keeps
  the unscaled array.
\<close>

definition scale_features :: "artifacts \<Rightarrow> bool \<Rightarrow> pyval list \<Rightarrow> pyval list" where
  "scale_features b used features =
     (case scaler b of
        Some transform \<Rightarrow>
          if \<not> used then (case transform features of Some scaled \<Rightarrow> scaled | None \<Rightarrow> features)
          else features
      | None \<Rightarrow> features)"

subsection \<open>The check for a usable signal\<close>

text \<open>The number an array entry stands for; an array with another entry is not numeric.\<close>

fun np_num :: "pyval \<Rightarrow> pyfloat option" where
  "np_num (PBool b) = Some (Finite (if b then 1 else 0))"
| "np_num (PInt i) = Some (Finite (of_int i))"
| "np_num (PFloat f) = Some f"
| "np_num v = None"

fun fadd :: "pyfloat \<Rightarrow> pyfloat \<Rightarrow> pyfloat" where
  "fadd (Finite a) (Finite b) = Finite (a + b)"
| "fadd NaN y = NaN"
| "fadd x NaN = NaN"
| "fadd PosInf NegInf = NaN"
| "fadd NegInf PosInf = NaN"
| "fadd PosInf y = PosInf"
| "fadd x PosInf = PosInf"
| "fadd NegInf y = NegInf"
| "fadd x NegInf = NegInf"

definition np_sum :: "pyfloat list \<Rightarrow> pyfloat" where
  "np_sum xs = foldl fadd (Finite 0) xs"

definition np_nansum :: "pyfloat list \<Rightarrow> pyfloat" where
  "np_nansum xs = np_sum (map (\<lambda>x. if x = NaN then Finite 0 else x) xs)"

fun isfinite :: "pyfloat \<Rightarrow> bool" where
  "isfinite (Finite r) = True"
| "isfinite f = False"

fun numeric_array :: "pyval list \<Rightarrow> pyfloat list option" where
  "numeric_array [] = Some []"
| "numeric_array (v # vs) =
     (case np_num v of
        None \<Rightarrow> None
      | Some x \<Rightarrow> (case numeric_array vs of None \<Rightarrow> None | Some xs \<Rightarrow> Some (x # xs)))"

definition no_signal_message :: string where
  "no_signal_message =
     ''No valid symptoms matched vocabulary and vitals are missing. Please add symptoms or vitals.''"

text \<open>
  The body of the \<open>try\<close> at lines 147 to 152. On an array that is not numeric the
  numpy calls raise a \<open>TypeError\<close>.
\<close>

definition signal_check :: "bool \<Rightarrow> pyval list \<Rightarrow> exn + unit" where
  "signal_check used features =
     (if \<not> used then
        (case numeric_array features of
           None \<Rightarrow> Inl (OtherError ''TypeError'')
         | Some xs \<Rightarrow>
             if np_nansum xs = Finite 0 \<or> \<not> list_all isfinite xs
             then Inl (ValueError no_signal_message) else Inr ())
      else Inr ())"

text \<open>The handler \<open>except Exception: pass\<close> at lines 153 to 155.\<close>

definition except_pass :: "exn + unit \<Rightarrow> unit" where
  "except_pass r = (case r of Inl e \<Rightarrow> () | Inr u \<Rightarrow> u)"

subsection \<open>Confidence, risk level, labels and the ranked list\<close>

text \<open>\<open>_calculate_risk_level\<close>.\<close>

definition calculate_risk_level :: "real \<Rightarrow> string" where
  "calculate_risk_level c =
     (if c \<ge> 0.8 then ''High'' else if c \<ge> 0.6 then ''Medium'' else ''Low'')"

text \<open>
  \<open>round(x, nd)\<close> on the real number a float denotes: the nearest multiple of
  \<open>10 ^ -nd\<close>, a tie going to the even one.
\<close>

definition py_round :: "nat \<Rightarrow> real \<Rightarrow> real" where
  "py_round nd x =
     (let y = x * 10 ^ nd; f = \<lfloor>y\<rfloor>; r = y - of_int f;
          q = (if r < 1 / 2 then f else if r > 1 / 2 then f + 1
               else if even f then f else f + 1)
      in of_int q / 10 ^ nd)"

text \<open>
  \<open>np.argsort(probabilities)[::-1][:k]\<close>. The sort is numpy's, called with its default
  kind, which does not fix the order of equal values: \<open>np.argsort\<close> is the parameter
  \<open>srt\<close> of everything that ranks probabilities, and what is known of it (its result
  holds every index once, in ascending order of the values) is a hypothesis where it
  is needed.
\<close>

definition top_indices :: "(real list \<Rightarrow> nat list) \<Rightarrow> real list \<Rightarrow> nat list" where
  "top_indices srt ps = take (min 5 (length ps)) (rev (srt ps))"

definition class_labels :: "artifacts \<Rightarrow> nat \<Rightarrow> string list" where
  "class_labels b n =
     (case label_encoders b ''disease'' of
        Some classes \<Rightarrow> classes
      | None \<Rightarrow>
          (case label_encoders b ''target'' of
             Some classes \<Rightarrow> classes
           | None \<Rightarrow> map str_nat [0..<n]))"

definition label_of :: "string list \<Rightarrow> nat \<Rightarrow> string" where
  "label_of labels idx = (if idx < length labels then labels ! idx else str_nat idx)"

text \<open>The list \<open>top_k\<close> built from a probability row.\<close>

definition build_top_k ::
  "(real list \<Rightarrow> nat list) \<Rightarrow> artifacts \<Rightarrow> real list \<Rightarrow> (string \<times> real) list" where
  "build_top_k srt b ps =
     (let labels = class_labels b (length ps)
      in map (\<lambda>idx. (label_of labels idx, py_round 4 (ps ! idx))) (top_indices srt ps))"

text \<open>\<open>inverse_transform([code])[0]\<close>, which raises on a code that is no class index.\<close>

definition inverse_transform :: "string list \<Rightarrow> int \<Rightarrow> string option" where
  "inverse_transform classes code =
     (if 0 \<le> code \<and> code < int (length classes) then Some (classes ! nat code) else None)"

definition predicted_label :: "artifacts \<Rightarrow> int \<Rightarrow> string option" where
  "predicted_label b code =
     (case label_encoders b ''disease'' of
        Some classes \<Rightarrow> inverse_transform classes code
      | None \<Rightarrow>
          (case label_encoders b ''target'' of
             Some classes \<Rightarrow> inverse_transform classes code
           | None \<Rightarrow> None))"

text \<open>\<open>float(np.max(probabilities))\<close>, which raises on an empty row, or \<open>0.85\<close>.\<close>

definition confidence_of :: "real list option \<Rightarrow> exn + real" where
  "confidence_of probabilities =
     (case probabilities of
        None \<Rightarrow> Inr 0.85
      | Some ps \<Rightarrow>
          if ps = [] then Inl (ValueError ''zero-size array to reduction operation maximum'')
          else Inr (Max (set ps)))"

text \<open>\<open>int(features.sum())\<close> on the symptom array.\<close>

definition count_matched :: "pyval list \<Rightarrow> int" where
  "count_matched features =
     (case numeric_array features of
        Some xs \<Rightarrow> (case np_sum xs of Finite r \<Rightarrow> \<lfloor>r\<rfloor> | _ \<Rightarrow> 0)
      | None \<Rightarrow> 0)"

text \<open>
  Lines 157 to 219 of \<open>predict\<close>: the classifier is called on \<open>features\<close> and the
  result is composed. The time stamp of the result is left out.
\<close>

definition respond ::
  "(real list \<Rightarrow> nat list) \<Rightarrow> artifacts \<Rightarrow> bool \<Rightarrow> pyval list \<Rightarrow> exn + prediction" where
  "respond srt b used features =
     (case model_predict b features of
        Inl e \<Rightarrow> Inl e
      | Inr code \<Rightarrow>
          (let probabilities =
                 (case model_predict_proba b of
                    None \<Rightarrow> None
                  | Some proba \<Rightarrow> proba features)
           in case confidence_of probabilities of
                Inl e \<Rightarrow> Inl e
              | Inr conf \<Rightarrow>
                  Inr \<lparr>predicted_disease =
                         (case predicted_label b code of Some l \<Rightarrow> l | None \<Rightarrow> str_int code),
                       disease_code = code,
                       confidence = py_round 4 conf,
                       confidence_percent = py_round 2 (conf * 100),
                       risk_level = calculate_risk_level conf,
                       used_symptoms_path = used,
                       matched_symptoms = (if used then count_matched features else 0),
                       model_type = model_type_name b,
                       top_k =
                         (case probabilities of
                            None \<Rightarrow> []
                          | Some ps \<Rightarrow> build_top_k srt b ps)\<rparr>))"

text \<open>\<open>DiseasePredictor.predict\<close>.\<close>

definition predict ::
  "(pyval \<Rightarrow> string) \<Rightarrow> (real list \<Rightarrow> nat list) \<Rightarrow> artifacts \<Rightarrow> request \<Rightarrow> exn + prediction" where
  "predict rp srt b d =
     (case select_features rp b d of
        (features0, used) \<Rightarrow>
          (let features = scale_features b used features0
           in case except_pass (signal_check used features) of
                () \<Rightarrow> respond srt b used features))"

section \<open>The batch endpoint (\<open>app.py\<close>)\<close>

record batch_response =
  count :: nat
  predictions :: "prediction list"

text \<open>The loop \<open>for pred_data in predictions_data: validate_prediction_input(pred_data)\<close>.\<close>

fun validate_all :: "request list \<Rightarrow> exn + unit" where
  "validate_all [] = Inr ()"
| "validate_all (pred_data # rest) =
     (case validate_prediction_input pred_data of
        Inl e \<Rightarrow> Inl e
      | Inr w \<Rightarrow> validate_all rest)"

text \<open>The loop that appends \<open>predictor.predict(pred_data)\<close> to \<open>results\<close>.\<close>

fun predict_all ::
  "(pyval \<Rightarrow> string) \<Rightarrow> (real list \<Rightarrow> nat list) \<Rightarrow> artifacts \<Rightarrow> request list \<Rightarrow> exn + prediction list" where
  "predict_all rp srt b [] = Inr []"
| "predict_all rp srt b (pred_data # rest) =
     (case predict rp srt b pred_data of
        Inl e \<Rightarrow> Inl e
      | Inr result \<Rightarrow>
          (case predict_all rp srt b rest of
             Inl e \<Rightarrow> Inl e
           | Inr results \<Rightarrow> Inr (result # results)))"

text \<open>
  The body of \<open>predict_batch\<close> from line 115 on, for a loaded predictor and a request
  whose \<open>predictions\<close> is the array \<open>predictions_data\<close> of JSON objects.
\<close>

definition predict_batch ::
  "(pyval \<Rightarrow> string) \<Rightarrow> (real list \<Rightarrow> nat list) \<Rightarrow> artifacts \<Rightarrow> request list \<Rightarrow> exn + batch_response" where
  "predict_batch rp srt b predictions_data =
     (if length predictions_data > 100
      then Inl (ValueError ''Maximum 100 predictions per batch'')
      else (case validate_all predictions_data of
              Inl e \<Rightarrow> Inl e
            | Inr u \<Rightarrow>
                (case predict_all rp srt b predictions_data of
                   Inl e \<Rightarrow> Inl e
                 | Inr results \<Rightarrow> Inr \<lparr>count = length results, predictions = results\<rparr>)))"

text \<open>The decorator \<open>handle_errors\<close>: the status and the error body of the response.\<close>

datatype 'a http = Ok200 'a | Validation400 string | Server500

definition handle_errors :: "exn + 'a \<Rightarrow> 'a http" where
  "handle_errors r =
     (case r of
        Inr v \<Rightarrow> Ok200 v
      | Inl (ValueError e) \<Rightarrow> Validation400 e
      | Inl (OtherError e) \<Rightarrow> Server500)"

section \<open>Example inputs\<close>

text \<open>
  A printer for requests that hold no float, list or dict among their symptoms, a
  scaler that divides by 100, and artifacts with a two-word vocabulary, used where a
  statement is evaluated on a concrete request.
\<close>

definition no_repr :: "pyval \<Rightarrow> string" where
  "no_repr v = []"

definition demo_transform :: "pyval list \<Rightarrow> pyval list option" where
  "demo_transform v =
     (case numeric_array v of
        None \<Rightarrow> None
      | Some xs \<Rightarrow> Some (map (\<lambda>x. case x of Finite r \<Rightarrow> PFloat (Finite (r / 100)) | f \<Rightarrow> PFloat f) xs))"

definition demo_artifacts :: artifacts where
  "demo_artifacts =
     \<lparr>symptom_vocabulary = [''chest pain'', ''fever''], scaler = Some demo_transform,
      model_predict = (\<lambda>f. Inr 0), model_predict_proba = None,
      label_encoders = Map.empty, model_type_name = ''Model''\<rparr>"

definition demo_vitals :: request where
  "demo_vitals =
     [''age'' \<mapsto> PInt 45, ''gender'' \<mapsto> PInt 1, ''weight'' \<mapsto> PInt 75,
      ''blood_pressure_systolic'' \<mapsto> PInt 130, ''blood_pressure_diastolic'' \<mapsto> PInt 85,
      ''glucose'' \<mapsto> PInt 110, ''cholesterol'' \<mapsto> PInt 200]"

definition demo_unscaled :: artifacts where
  "demo_unscaled = demo_artifacts\<lparr>scaler := None\<rparr>"

text \<open>
  One order that \<open>np.argsort\<close> may return: ascending, equal values in the order of
  their indices.
\<close>

definition stable_argsort :: "real list \<Rightarrow> nat list" where
  "stable_argsort ps = sort_key (\<lambda>i. ps ! i) [0..<length ps]"

text \<open>A classifier whose answer depends on its input: the sum of the integer entries.\<close>

definition echo_classifier :: "pyval list \<Rightarrow> exn + int" where
  "echo_classifier features =
     Inr (sum_list (map (\<lambda>v. case v of PInt i \<Rightarrow> i | _ \<Rightarrow> 0) features))"

definition demo_echo :: artifacts where
  "demo_echo = demo_artifacts\<lparr>scaler := None, model_predict := echo_classifier\<rparr>"

definition demo_out_of_range :: request where
  "demo_out_of_range =
     [''symptoms'' \<mapsto> PList [PStr ''qwerty''], ''age'' \<mapsto> PInt 9999, ''glucose'' \<mapsto> PInt (- 5)]"

section \<open>Evaluation helpers\<close>

lemma str_nat_digit: "n < 10 \<Longrightarrow> str_nat n = [''0123456789'' ! n]"
  by (subst str_nat.simps) simp

text \<open>The outcome of the signal check never reaches the result of \<open>predict\<close>.\<close>

lemma predict_respond:
  "predict rp srt b d =
     respond srt b (snd (select_features rp b d))
       (scale_features b (snd (select_features rp b d)) (fst (select_features rp b d)))"
  by (simp add: predict_def Let_def split: prod.splits unit.splits)

section \<open>Risk level\<close>

text \<open>
  C6. The risk level is \<open>High\<close> exactly for a confidence of at least 0.8, \<open>Medium\<close>
  exactly from 0.6 up to but excluding 0.8, and \<open>Low\<close> exactly below 0.6; so 0.8 is
  \<open>High\<close>, 0.79999 is \<open>Medium\<close>, 0.6 is \<open>Medium\<close> and 0.59999 is \<open>Low\<close>. The
  confidence is read as a real number.
\<close>

theorem risk_level_bands:
  "(calculate_risk_level c = ''High'' \<longleftrightarrow> c \<ge> 0.8) \<and>
   (calculate_risk_level c = ''Medium'' \<longleftrightarrow> 0.6 \<le> c \<and> c < 0.8) \<and>
   (calculate_risk_level c = ''Low'' \<longleftrightarrow> c < 0.6) \<and>
   calculate_risk_level 0.8 = ''High'' \<and> calculate_risk_level 0.79999 = ''Medium'' \<and>
   calculate_risk_level 0.6 = ''Medium'' \<and> calculate_risk_level 0.59999 = ''Low''"
  by (simp add: calculate_risk_level_def)

section \<open>Normalization\<close>

text \<open>
  C3. Normalization is not idempotent in the code. Separators are collapsed before
  the other characters are removed, so removing a character between two spaces leaves
  a run of two spaces, which a second pass collapses: \<open>"a ! b"\<close> gives \<open>"a  b"\<close> and
  then \<open>"a b"\<close>, in \<open>_norm\<close> and in \<open>normalize_symptom\<close> alike. \<open>_norm\<close> also trims
  before the removal, so \<open>"! a"\<close> gives \<open>" a"\<close> and then \<open>"a"\<close>.
\<close>

theorem norm_twice_differs:
  "norm_text ''a ! b'' = ''a  b'' \<and> norm_text (norm_text ''a ! b'') = ''a b'' \<and>
   normalize_symptom ''a ! b'' = ''a  b'' \<and>
   normalize_symptom (normalize_symptom ''a ! b'') = ''a b'' \<and>
   norm_text ''! a'' = '' a'' \<and> norm_text (norm_text ''! a'') = ''a''"
  by code_simp

section \<open>The swallowed signal check\<close>

lemma matching_qwerty:
  "run_matching rp [''fever''] [PStr ''qwerty_nonexistent''] =
     \<lparr>feature_vec = [0], matched = [], unmatched = [PStr ''qwerty_nonexistent'']\<rparr>"
  by code_simp

lemma select_qwerty:
  "select_features rp
     \<lparr>symptom_vocabulary = [''fever''], scaler = None, model_predict = (\<lambda>f. Inr 0),
      model_predict_proba = None, label_encoders = Map.empty, model_type_name = ''Model''\<rparr>
     [''symptoms'' \<mapsto> PList [PStr ''qwerty_nonexistent'']]
   = ([PInt 0, PInt 0, PInt 0, PInt 0, PInt 0, PInt 0, PInt 0], False)"
  by (simp add: select_features_def get_def matching_qwerty vitals_vector_def)

text \<open>
  C1. The request \<open>{"symptoms": ["qwerty_nonexistent"]}\<close> matches nothing in the
  vocabulary \<open>["fever"]\<close> and carries no vitals. The check finds the all-zero array
  and raises the error that asks for symptoms or vitals, but the handler around the
  check discards it: \<open>predict\<close> returns a prediction computed from the seven zeros.
\<close>

theorem no_signal_error_is_swallowed:
  "signal_check False (vitals_vector [''symptoms'' \<mapsto> PList [PStr ''qwerty_nonexistent'']])
     = Inl (ValueError no_signal_message)
   \<and> predict rp srt
       \<lparr>symptom_vocabulary = [''fever''], scaler = None, model_predict = (\<lambda>f. Inr 0),
        model_predict_proba = None, label_encoders = Map.empty, model_type_name = ''Model''\<rparr>
       [''symptoms'' \<mapsto> PList [PStr ''qwerty_nonexistent'']]
     = Inr \<lparr>predicted_disease = ''0'', disease_code = 0, confidence = 0.85,
            confidence_percent = 85, risk_level = ''High'', used_symptoms_path = False,
            matched_symptoms = 0, model_type = ''Model'', top_k = []\<rparr>"
proof -
  have chk:
    "signal_check False (vitals_vector [''symptoms'' \<mapsto> PList [PStr ''qwerty_nonexistent'']])
       = Inl (ValueError no_signal_message)"
    by (simp add: signal_check_def vitals_vector_def get_def np_nansum_def np_sum_def)
  have rnd: "py_round 4 0.85 = 0.85" "py_round 2 (0.85 * 100) = 85"
    by (simp_all add: py_round_def Let_def)
  show ?thesis
    unfolding predict_respond select_qwerty
    using chk rnd
    by (simp add: respond_def scale_features_def confidence_of_def predicted_label_def
        str_int_def str_nat_digit calculate_risk_level_def)
qed

section \<open>Validation of the symptom list\<close>

text \<open>
  C7. The entry check of \<open>validate_prediction_input\<close> tests the type alone, so a number
  that is no 0/1 flag passes although the error message of the same check asks for
  "a string or 0/1": the request \<open>{"symptoms": ["fever", 7]}\<close> is valid, with nothing
  to warn about.
\<close>

theorem number_that_is_no_flag_passes:
  "validate_prediction_input [''symptoms'' \<mapsto> PList [PStr ''fever'', PInt 7]] = Inr []"
  by code_simp

section \<open>Batch requests\<close>

text \<open>
  C8. A batch whose entry 1 is the empty object is rejected by \<open>predict_batch\<close> with
  the message of the entry's own validation, which names no index; the caller sees
  that message with status 400. \<open>validate_batch_input\<close>, which the endpoint does not
  call, puts the index in front.
\<close>

theorem batch_error_names_no_index:
  "handle_errors (predict_batch rp srt b
     [[''age'' \<mapsto> PInt 45, ''gender'' \<mapsto> PInt 1, ''weight'' \<mapsto> PInt 75,
       ''blood_pressure_systolic'' \<mapsto> PInt 130, ''blood_pressure_diastolic'' \<mapsto> PInt 85,
       ''glucose'' \<mapsto> PInt 110, ''cholesterol'' \<mapsto> PInt 200], Map.empty])
     = Validation400 ''Missing required field: age''
   \<and> validate_batch_input
     [[''age'' \<mapsto> PInt 45, ''gender'' \<mapsto> PInt 1, ''weight'' \<mapsto> PInt 75,
       ''blood_pressure_systolic'' \<mapsto> PInt 130, ''blood_pressure_diastolic'' \<mapsto> PInt 85,
       ''glucose'' \<mapsto> PInt 110, ''cholesterol'' \<mapsto> PInt 200], Map.empty]
     = Inl (ValueError ''Prediction 1: Missing required field: age'')"
  by code_simp

section \<open>Lookup in the vocabulary index\<close>

lemma add_variants_lookup:
  "add_variants i vs m k =
     (case m k of Some p \<Rightarrow> Some p | None \<Rightarrow> if k \<in> set vs then Some i else None)"
  by (induction vs arbitrary: m) (auto split: option.splits)

lemma build_from_kept:
  "m k = Some p \<Longrightarrow> build_from i ss m k = Some p"
  by (induction ss arbitrary: i m) (auto simp: add_variants_lookup)

lemma build_from_first:
  "m k = None \<Longrightarrow> j < length ss \<Longrightarrow> k \<in> set (variants (norm_text (ss ! j))) \<Longrightarrow>
   (\<forall>j' < j. k \<notin> set (variants (norm_text (ss ! j')))) \<Longrightarrow>
   build_from i ss m k = Some (i + j)"
proof (induction ss arbitrary: i j m)
  case Nil
  then show ?case by simp
next
  case (Cons s ss)
  show ?case
  proof (cases j)
    case 0
    with Cons.prems have "add_variants i (variants (norm_text s)) m k = Some i"
      by (simp add: add_variants_lookup)
    then show ?thesis using 0 by (simp add: build_from_kept)
  next
    case (Suc j0)
    with Cons.prems have nk: "k \<notin> set (variants (norm_text s))" by auto
    then have m': "add_variants i (variants (norm_text s)) m k = None"
      using Cons.prems(1) by (simp add: add_variants_lookup)
    have "build_from (Suc i) ss (add_variants i (variants (norm_text s)) m) k = Some (Suc i + j0)"
      using m' Cons.prems Suc by (intro Cons.IH) auto
    then show ?thesis using Suc by simp
  qed
qed

lemma base_in_variants: "b \<in> set (variants b)"
  by (simp add: variants_def)

lemma first_hit_head:
  "idx (norm_text s) = Some p \<Longrightarrow> lookup_symptom idx s = Some p"
  by (simp add: lookup_symptom_def variants_def)

lemma least_mention:
  assumes "i < length V" "k \<in> set (variants (norm_text (V ! i)))"
  shows "\<exists>j \<le> i. k \<in> set (variants (norm_text (V ! j))) \<and> (\<forall>j' < j. k \<notin> set (variants (norm_text (V ! j'))))"
proof -
  let ?P = "\<lambda>j. k \<in> set (variants (norm_text (V ! j)))"
  have "?P (LEAST j. ?P j)" using assms(2) by (rule LeastI)
  moreover have "(LEAST j. ?P j) \<le> i" using assms(2) by (rule Least_le)
  moreover have "\<forall>j' < (LEAST j. ?P j). \<not> ?P j'" using not_less_Least by blast
  ultimately show ?thesis by blast
qed

lemma single_symptom_sets:
  "lookup_symptom idx s = Some j \<Longrightarrow> s \<noteq> [] \<Longrightarrow>
   feature_vec (match_symptoms rp idx [PStr s] st) = (feature_vec st)[j := 1]"
  by (auto simp: lookup_symptom_def)

text \<open>
  C2, as the code has it. Looking up the entry at position \<open>i\<close> of the vocabulary
  always hits, at the first position whose variants contain the normalized entry: a
  position \<open>j \<le> i\<close>, and \<open>i\<close> itself when no earlier entry has the normalized
  entry among its variants. Sent as the only symptom of a request, an entry that is
  not the empty string sets exactly that position of the array.
\<close>

theorem lookup_first_seen_wins:
  assumes "i < length V"
  shows "(\<exists>j \<le> i. lookup_symptom (vocab_index V) (V ! i) = Some j \<and>
            (V ! i \<noteq> [] \<longrightarrow>
               feature_vec (run_matching rp V [PStr (V ! i)]) = (replicate (length V) 0)[j := 1]) \<and>
            norm_text (V ! i) \<in> set (variants (norm_text (V ! j))) \<and>
            (\<forall>j' < j. norm_text (V ! i) \<notin> set (variants (norm_text (V ! j'))))) \<and>
         ((\<forall>j < i. norm_text (V ! i) \<notin> set (variants (norm_text (V ! j)))) \<longrightarrow>
            lookup_symptom (vocab_index V) (V ! i) = Some i)"
proof -
  let ?k = "norm_text (V ! i)"
  have mem: "?k \<in> set (variants (norm_text (V ! i)))" by (rule base_in_variants)
  have at: "lookup_symptom (vocab_index V) (V ! i) = Some j"
    if j: "j \<le> i" "?k \<in> set (variants (norm_text (V ! j)))"
      "\<forall>j' < j. ?k \<notin> set (variants (norm_text (V ! j')))" for j
  proof -
    have "build_from 0 V Map.empty ?k = Some (0 + j)"
      by (rule build_from_first) (use j assms in auto)
    then show ?thesis by (simp add: vocab_index_def first_hit_head)
  qed
  from least_mention [OF assms mem] obtain j where
    j: "j \<le> i" "?k \<in> set (variants (norm_text (V ! j)))"
       "\<forall>j' < j. ?k \<notin> set (variants (norm_text (V ! j')))" by blast
  have hit: "lookup_symptom (vocab_index V) (V ! i) = Some j" using j by (rule at)
  have loop: "V ! i \<noteq> [] \<longrightarrow>
      feature_vec (run_matching rp V [PStr (V ! i)]) = (replicate (length V) 0)[j := 1]"
    using single_symptom_sets [OF hit, of rp "init_state (length V)"]
    by (simp add: run_matching_def init_state_def)
  have first: "\<exists>j \<le> i. lookup_symptom (vocab_index V) (V ! i) = Some j \<and>
            (V ! i \<noteq> [] \<longrightarrow>
               feature_vec (run_matching rp V [PStr (V ! i)]) = (replicate (length V) 0)[j := 1]) \<and>
            ?k \<in> set (variants (norm_text (V ! j))) \<and>
            (\<forall>j' < j. ?k \<notin> set (variants (norm_text (V ! j'))))"
    using hit loop j by blast
  have second: "(\<forall>j < i. ?k \<notin> set (variants (norm_text (V ! j)))) \<longrightarrow>
            lookup_symptom (vocab_index V) (V ! i) = Some i"
    using at [of i] mem by simp
  show ?thesis using first second by blast
qed

text \<open>
  C2, witness: in \<open>["chest pain", "fever"]\<close> the entry at position 1 is found at
  position 1 and sets that position of the array; in \<open>["colds", "cold"]\<close> the entry
  at position 0 is found at position 0.
\<close>

theorem lookup_first_seen_wins_witness:
  "(1::nat) < length [''chest pain'', ''fever'']
   \<and> [''chest pain'', ''fever''] ! 1 \<noteq> []
   \<and> lookup_symptom (vocab_index [''chest pain'', ''fever'']) ([''chest pain'', ''fever''] ! 1) = Some 1
   \<and> feature_vec (run_matching no_repr [''chest pain'', ''fever''] [PStr ''fever'']) = [0, 1]
   \<and> (0::nat) < length [''colds'', ''cold'']
   \<and> lookup_symptom (vocab_index [''colds'', ''cold'']) ([''colds'', ''cold''] ! 0) = Some 0"
proof -
  have a: "(1::nat) < length [''chest pain'', ''fever'']" by simp
  have na: "\<forall>j < (1::nat). norm_text ([''chest pain'', ''fever''] ! 1)
              \<notin> set (variants (norm_text ([''chest pain'', ''fever''] ! j)))"
    by code_simp
  have b: "(0::nat) < length [''colds'', ''cold'']" by simp
  have l1: "lookup_symptom (vocab_index [''chest pain'', ''fever'']) ([''chest pain'', ''fever''] ! 1) = Some 1"
    using lookup_first_seen_wins [OF a] na by blast
  have l0: "lookup_symptom (vocab_index [''colds'', ''cold'']) ([''colds'', ''cold''] ! 0) = Some 0"
    using lookup_first_seen_wins [OF b] by simp
  have fv: "feature_vec (run_matching no_repr [''chest pain'', ''fever''] [PStr ''fever'']) = [0, 1]"
    using lookup_first_seen_wins [OF a, of no_repr] l1 by (auto simp: numeral_2_eq_2)
  show ?thesis using l1 l0 fv by simp
qed

text \<open>
  C2, counterexample to the claim as stated: in \<open>["colds", "cold"]\<close> the variant
  \<open>"cold"\<close> of entry 0 is in the index first, so looking up entry 1 gives position 0;
  in \<open>["fever", "Fever"]\<close> both entries normalize to the same key.
\<close>

theorem lookup_own_entry_counterexample:
  "lookup_symptom (vocab_index [''colds'', ''cold'']) ([''colds'', ''cold''] ! 1) = Some 0
   \<and> lookup_symptom (vocab_index [''fever'', ''Fever'']) ([''fever'', ''Fever''] ! 1) = Some 0
   \<and> feature_vec (run_matching no_repr [''colds'', ''cold''] [PStr ''cold'']) = [1, 0]"
  by code_simp

section \<open>The matching loop and the choice of the path\<close>

lemma skip_falsy:
  "match_symptoms rp idx syms st = match_symptoms rp idx (filter py_truthy syms) st"
  by (induction syms arbitrary: st) (auto split: option.splits)

lemma all_falsy_unchanged:
  "\<forall>s \<in> set syms. \<not> py_truthy s \<Longrightarrow> match_symptoms rp idx syms st = st"
  by (induction syms arbitrary: st) auto

lemma flags_kept:
  "set (feature_vec st) \<subseteq> {0, 1} \<Longrightarrow>
   set (feature_vec (match_symptoms rp idx syms st)) \<subseteq> {0, 1}"
proof (induction syms arbitrary: st)
  case Nil
  then show ?case by simp
next
  case (Cons s syms)
  show ?case
  proof (cases "py_truthy s")
    case False
    then show ?thesis using Cons by simp
  next
    case True
    show ?thesis
    proof (cases "first_hit idx (variants (norm_text (py_str rp s)))")
      case None
      have "set (feature_vec (st\<lparr>unmatched := unmatched st @ [s]\<rparr>)) \<subseteq> {0, 1}"
        using Cons.prems by simp
      from Cons.IH [OF this] show ?thesis using True None by simp
    next
      case (Some hp)
      obtain hit p where hp: "hp = (hit, p)" by (cases hp)
      have "set ((feature_vec st)[p := 1]) \<subseteq> insert 1 (set (feature_vec st))"
        by (rule set_update_subset_insert)
      then have "set (feature_vec (st\<lparr>feature_vec := (feature_vec st)[p := 1],
                      matched := matched st @ [s]\<rparr>)) \<subseteq> {0, 1}"
        using Cons.prems by auto
      from Cons.IH [OF this] show ?thesis using True Some hp by simp
    qed
  qed
qed

lemma flags_sum_pos:
  "set xs \<subseteq> {0, 1::real} \<Longrightarrow> (sum_list xs > 0) = (\<exists>x \<in> set xs. x \<noteq> 0)"
proof (induction xs)
  case Nil
  then show ?case by simp
next
  case (Cons x xs)
  then have ih: "(sum_list xs > 0) = (\<exists>y \<in> set xs. y \<noteq> 0)" by simp
  have nn: "0 \<le> sum_list xs"
    by (rule sum_list_nonneg) (use Cons.prems in auto)
  have x01: "x = 0 \<or> x = 1" using Cons.prems by simp
  show ?case
  proof (cases "x = 0")
    case True
    then show ?thesis using ih by simp
  next
    case False
    then have "x = 1" using x01 by simp
    then show ?thesis using nn by simp
  qed
qed

lemma run_matching_flags:
  "set (feature_vec (run_matching rp V syms)) \<subseteq> {0, 1}"
  unfolding run_matching_def by (rule flags_kept) (auto simp add: init_state_def)

lemma matched_grows:
  "matched st \<noteq> [] \<Longrightarrow> matched (match_symptoms rp idx syms st) \<noteq> []"
  by (induction syms arbitrary: st) (auto split: option.splits)

lemma no_match_keeps_vector:
  "matched (match_symptoms rp idx syms st) = [] \<Longrightarrow>
   feature_vec (match_symptoms rp idx syms st) = feature_vec st"
proof (induction syms arbitrary: st)
  case Nil
  then show ?case by simp
next
  case (Cons s syms)
  show ?case
  proof (cases "py_truthy s")
    case False
    then show ?thesis using Cons by simp
  next
    case True
    show ?thesis
    proof (cases "first_hit idx (variants (norm_text (py_str rp s)))")
      case None
      then show ?thesis using True Cons.prems Cons.IH [of "st\<lparr>unmatched := unmatched st @ [s]\<rparr>"]
        by simp
    next
      case (Some hp)
      obtain hit p where hp: "hp = (hit, p)" by (cases hp)
      have "matched (match_symptoms rp idx syms
              (st\<lparr>feature_vec := (feature_vec st)[p := 1], matched := matched st @ [s]\<rparr>)) \<noteq> []"
        by (rule matched_grows) simp
      then show ?thesis using True Some hp Cons.prems by simp
    qed
  qed
qed

lemma no_match_zero_sum:
  "matched (run_matching rp V syms) = [] \<Longrightarrow> sum_list (feature_vec (run_matching rp V syms)) = 0"
  using no_match_keeps_vector [of rp "vocab_index V" syms "init_state (length V)"]
  by (simp add: run_matching_def init_state_def sum_list_replicate)

lemma select_list:
  "get d ''symptoms'' PNone = PList syms \<Longrightarrow>
   select_features rp b d =
     (if symptom_vocabulary b \<noteq> [] \<and>
         (\<exists>x \<in> set (feature_vec (run_matching rp (symptom_vocabulary b) syms)). x \<noteq> 0)
      then (as_floats (feature_vec (run_matching rp (symptom_vocabulary b) syms)), True)
      else (vitals_vector d, False))"
  unfolding select_features_def Let_def
  by (simp only: pyval.case flags_sum_pos [OF run_matching_flags] split: if_splits) simp

lemma select_not_list:
  "\<forall>syms. get d ''symptoms'' PNone \<noteq> PList syms \<Longrightarrow>
   select_features rp b d = (vitals_vector d, False)"
  unfolding select_features_def
  by (cases "get d ''symptoms'' PNone") auto

lemma select_symptoms:
  "get d ''symptoms'' PNone = PList syms \<Longrightarrow> symptom_vocabulary b \<noteq> [] \<Longrightarrow>
   \<exists>x \<in> set (feature_vec (run_matching rp (symptom_vocabulary b) syms)). x \<noteq> 0 \<Longrightarrow>
   select_features rp b d = (as_floats (feature_vec (run_matching rp (symptom_vocabulary b) syms)), True)"
  by (simp only: select_list if_True simp_thms)

lemma select_vitals:
  assumes "\<not> (\<exists>syms. get d ''symptoms'' PNone = PList syms \<and> symptom_vocabulary b \<noteq> [] \<and>
        (\<exists>x \<in> set (feature_vec (run_matching rp (symptom_vocabulary b) syms)). x \<noteq> 0))"
  shows "select_features rp b d = (vitals_vector d, False)"
proof (cases "\<exists>syms. get d ''symptoms'' PNone = PList syms")
  case True
  then obtain syms where s: "get d ''symptoms'' PNone = PList syms" by blast
  with assms have "\<not> (symptom_vocabulary b \<noteq> [] \<and>
        (\<exists>x \<in> set (feature_vec (run_matching rp (symptom_vocabulary b) syms)). x \<noteq> 0))"
    by blast
  then show ?thesis by (simp only: select_list [OF s] if_False)
next
  case False
  then show ?thesis by (intro select_not_list) blast
qed

lemma fallback_on_no_match:
  assumes "get d ''symptoms'' PNone = PList syms"
      and "matched (run_matching rp (symptom_vocabulary b) syms) = []"
  shows "select_features rp b d = (vitals_vector d, False)"
proof -
  have "sum_list (feature_vec (run_matching rp (symptom_vocabulary b) syms)) = 0"
    using assms(2) by (rule no_match_zero_sum)
  then have "\<not> (\<exists>x \<in> set (feature_vec (run_matching rp (symptom_vocabulary b) syms)). x \<noteq> 0)"
    using flags_sum_pos [OF run_matching_flags, of rp "symptom_vocabulary b" syms] by simp
  then show ?thesis by (simp only: select_list [OF assms(1)] simp_thms if_False)
qed

text \<open>
  C10. An entry that is falsy is skipped by the matching loop: the loop ends in the
  same state as on the list without such entries. A list of falsy entries only leaves
  the state untouched, as an empty list does, and \<open>predict\<close> then calls the
  classifier on the vitals array.
\<close>

theorem falsy_symptoms_skipped:
  "match_symptoms rp idx syms st = match_symptoms rp idx (filter py_truthy syms) st \<and>
   ((\<forall>s \<in> set syms. \<not> py_truthy s) \<longrightarrow>
      match_symptoms rp idx syms st = st \<and>
      run_matching rp V syms = run_matching rp V [] \<and>
      (get d ''symptoms'' PNone = PList syms \<longrightarrow>
         predict rp srt b d = respond srt b False (scale_features b False (vitals_vector d))))"
proof (intro conjI impI)
  show "match_symptoms rp idx syms st = match_symptoms rp idx (filter py_truthy syms) st"
    by (rule skip_falsy)
next
  assume "\<forall>s \<in> set syms. \<not> py_truthy s"
  then show "match_symptoms rp idx syms st = st" by (rule all_falsy_unchanged)
next
  assume "\<forall>s \<in> set syms. \<not> py_truthy s"
  then show "run_matching rp V syms = run_matching rp V []"
    by (simp add: run_matching_def all_falsy_unchanged)
next
  assume f: "\<forall>s \<in> set syms. \<not> py_truthy s" and g: "get d ''symptoms'' PNone = PList syms"
  have "matched (run_matching rp (symptom_vocabulary b) syms) = []"
    using f by (simp add: run_matching_def all_falsy_unchanged init_state_def)
  with g have "select_features rp b d = (vitals_vector d, False)"
    by (rule fallback_on_no_match)
  then show "predict rp srt b d = respond srt b False (scale_features b False (vitals_vector d))"
    by (simp add: predict_respond)
qed

text \<open>
  C10, witness: the symptoms \<open>["", 0, 0.0, None]\<close>.
\<close>

theorem falsy_symptoms_skipped_witness:
  "list_all (\<lambda>s. \<not> py_truthy s) [PStr [], PInt 0, PFloat (Finite 0), PNone]
   \<and> run_matching no_repr (symptom_vocabulary demo_unscaled) [PStr [], PInt 0, PFloat (Finite 0), PNone]
       = init_state 2
   \<and> predict no_repr stable_argsort demo_unscaled [''symptoms'' \<mapsto> PList [PStr [], PInt 0, PFloat (Finite 0), PNone]]
       = respond stable_argsort demo_unscaled False [PInt 0, PInt 0, PInt 0, PInt 0, PInt 0, PInt 0, PInt 0]"
proof -
  let ?syms = "[PStr [], PInt 0, PFloat (Finite 0), PNone]"
  let ?d = "[''symptoms'' \<mapsto> PList ?syms]"
  have f: "\<forall>s \<in> set ?syms. \<not> py_truthy s" by simp
  have g: "get ?d ''symptoms'' PNone = PList ?syms" by (simp add: get_def)
  have voc: "symptom_vocabulary demo_unscaled = [''chest pain'', ''fever'']"
    by (simp add: demo_unscaled_def demo_artifacts_def)
  note inst = falsy_symptoms_skipped [of no_repr "vocab_index (symptom_vocabulary demo_unscaled)" ?syms
      "init_state 2" "symptom_vocabulary demo_unscaled" ?d stable_argsort demo_unscaled]
  have r: "run_matching no_repr (symptom_vocabulary demo_unscaled) ?syms
       = run_matching no_repr (symptom_vocabulary demo_unscaled) []"
    using inst f by blast
  have p: "predict no_repr stable_argsort demo_unscaled ?d
       = respond stable_argsort demo_unscaled False (scale_features demo_unscaled False (vitals_vector ?d))"
    using inst f g by blast
  have vv: "scale_features demo_unscaled False (vitals_vector ?d) =
        [PInt 0, PInt 0, PInt 0, PInt 0, PInt 0, PInt 0, PInt 0]"
    by (simp add: scale_features_def demo_unscaled_def demo_artifacts_def vitals_vector_def get_def)
  show ?thesis using r p vv by (simp add: run_matching_def voc numeral_2_eq_2)
qed

text \<open>
  C4. When the request's symptoms are a list, the vocabulary is not empty and the
  one-hot array has a non-zero entry, the classifier is called on that array as it is,
  whatever the scaler. In every other case it is called on the seven vitals in their
  fixed order, 0 standing for a missing field, after the scaler's transform when there
  is a scaler (the array stays unscaled where the transform raises).
\<close>

theorem feature_path_and_scaling:
  "(get d ''symptoms'' PNone = PList syms \<and> symptom_vocabulary b \<noteq> [] \<and>
      (\<exists>x \<in> set (feature_vec (run_matching rp (symptom_vocabulary b) syms)). x \<noteq> 0)
    \<longrightarrow> predict rp srt b d =
          respond srt b True (as_floats (feature_vec (run_matching rp (symptom_vocabulary b) syms))))
   \<and> (\<not> (\<exists>syms. get d ''symptoms'' PNone = PList syms \<and> symptom_vocabulary b \<noteq> [] \<and>
           (\<exists>x \<in> set (feature_vec (run_matching rp (symptom_vocabulary b) syms)). x \<noteq> 0))
    \<longrightarrow> predict rp srt b d =
          respond srt b False
            (case scaler b of
               None \<Rightarrow> vitals_vector d
             | Some transform \<Rightarrow>
                 (case transform (vitals_vector d) of
                    Some scaled \<Rightarrow> scaled
                  | None \<Rightarrow> vitals_vector d)))
   \<and> vitals_vector d =
       [get d ''age'' (PInt 0), get d ''gender'' (PInt 0), get d ''weight'' (PInt 0),
        get d ''blood_pressure_systolic'' (PInt 0), get d ''blood_pressure_diastolic'' (PInt 0),
        get d ''glucose'' (PInt 0), get d ''cholesterol'' (PInt 0)]"
proof (intro conjI impI)
  assume a: "get d ''symptoms'' PNone = PList syms \<and> symptom_vocabulary b \<noteq> [] \<and>
      (\<exists>x \<in> set (feature_vec (run_matching rp (symptom_vocabulary b) syms)). x \<noteq> 0)"
  then have "select_features rp b d =
        (as_floats (feature_vec (run_matching rp (symptom_vocabulary b) syms)), True)"
    using select_symptoms [of d syms b rp] by blast
  then show "predict rp srt b d =
          respond srt b True (as_floats (feature_vec (run_matching rp (symptom_vocabulary b) syms)))"
    by (simp add: predict_respond scale_features_def split: option.splits)
next
  assume "\<not> (\<exists>syms. get d ''symptoms'' PNone = PList syms \<and> symptom_vocabulary b \<noteq> [] \<and>
           (\<exists>x \<in> set (feature_vec (run_matching rp (symptom_vocabulary b) syms)). x \<noteq> 0))"
  then have "select_features rp b d = (vitals_vector d, False)"
    by (rule select_vitals)
  then show "predict rp srt b d =
          respond srt b False
            (case scaler b of
               None \<Rightarrow> vitals_vector d
             | Some transform \<Rightarrow>
                 (case transform (vitals_vector d) of
                    Some scaled \<Rightarrow> scaled
                  | None \<Rightarrow> vitals_vector d))"
    by (simp add: predict_respond scale_features_def split: option.splits)
next
  show "vitals_vector d =
       [get d ''age'' (PInt 0), get d ''gender'' (PInt 0), get d ''weight'' (PInt 0),
        get d ''blood_pressure_systolic'' (PInt 0), get d ''blood_pressure_diastolic'' (PInt 0),
        get d ''glucose'' (PInt 0), get d ''cholesterol'' (PInt 0)]"
    by (simp add: vitals_vector_def)
qed

lemma demo_matching:
  "run_matching no_repr [''chest pain'', ''fever''] [PStr ''Chest Pain!'', PStr ''coughing''] =
     \<lparr>feature_vec = [1, 0], matched = [PStr ''Chest Pain!''], unmatched = [PStr ''coughing'']\<rparr>"
  by code_simp

lemma demo_scaled:
  "demo_transform (vitals_vector demo_vitals) =
     Some [PFloat (Finite (45 / 100)), PFloat (Finite (1 / 100)), PFloat (Finite (75 / 100)),
           PFloat (Finite (130 / 100)), PFloat (Finite (85 / 100)), PFloat (Finite (110 / 100)),
           PFloat (Finite (200 / 100))]"
  by (simp add: demo_transform_def vitals_vector_def demo_vitals_def get_def)

text \<open>
  C4, witness: the symptoms \<open>["Chest Pain!", "coughing"]\<close> give the array
  \<open>[1.0, 0.0]\<close> unscaled; a request with vitals only gives the scaled vitals.
\<close>

theorem feature_path_and_scaling_witness:
  "get [''symptoms'' \<mapsto> PList [PStr ''Chest Pain!'', PStr ''coughing'']] ''symptoms'' PNone
     = PList [PStr ''Chest Pain!'', PStr ''coughing'']
   \<and> symptom_vocabulary demo_artifacts \<noteq> []
   \<and> (\<exists>x \<in> set (feature_vec (run_matching no_repr (symptom_vocabulary demo_artifacts)
                      [PStr ''Chest Pain!'', PStr ''coughing''])). x \<noteq> 0)
   \<and> predict no_repr stable_argsort demo_artifacts [''symptoms'' \<mapsto> PList [PStr ''Chest Pain!'', PStr ''coughing'']]
       = respond stable_argsort demo_artifacts True [PFloat (Finite 1), PFloat (Finite 0)]
   \<and> \<not> (\<exists>syms. get demo_vitals ''symptoms'' PNone = PList syms \<and>
            symptom_vocabulary demo_artifacts \<noteq> [] \<and>
            (\<exists>x \<in> set (feature_vec (run_matching no_repr (symptom_vocabulary demo_artifacts) syms)).
                x \<noteq> 0))
   \<and> predict no_repr stable_argsort demo_artifacts demo_vitals
       = respond stable_argsort demo_artifacts False
           [PFloat (Finite (45 / 100)), PFloat (Finite (1 / 100)), PFloat (Finite (75 / 100)),
            PFloat (Finite (130 / 100)), PFloat (Finite (85 / 100)), PFloat (Finite (110 / 100)),
            PFloat (Finite (200 / 100))]"
proof -
  let ?d = "[''symptoms'' \<mapsto> PList [PStr ''Chest Pain!'', PStr ''coughing'']]"
  let ?syms = "[PStr ''Chest Pain!'', PStr ''coughing'']"
  have voc: "symptom_vocabulary demo_artifacts = [''chest pain'', ''fever'']"
    by (simp add: demo_artifacts_def)
  have sc: "scaler demo_artifacts = Some demo_transform"
    by (simp add: demo_artifacts_def)
  have g: "get ?d ''symptoms'' PNone = PList ?syms" by (simp add: get_def)
  have h: "\<exists>x \<in> set (feature_vec (run_matching no_repr (symptom_vocabulary demo_artifacts) ?syms)).
             x \<noteq> 0"
    by (simp add: voc demo_matching)
  have n: "get demo_vitals ''symptoms'' PNone = PNone"
    by (simp add: demo_vitals_def get_def)
  have nh: "\<not> (\<exists>syms. get demo_vitals ''symptoms'' PNone = PList syms \<and>
            symptom_vocabulary demo_artifacts \<noteq> [] \<and>
            (\<exists>x \<in> set (feature_vec (run_matching no_repr (symptom_vocabulary demo_artifacts) syms)).
                x \<noteq> 0))"
    by (simp add: n)
  have p1: "predict no_repr stable_argsort demo_artifacts ?d =
      respond stable_argsort demo_artifacts True
        (as_floats (feature_vec (run_matching no_repr (symptom_vocabulary demo_artifacts) ?syms)))"
    using feature_path_and_scaling [of ?d ?syms demo_artifacts no_repr stable_argsort] g h voc by simp
  have p2: "predict no_repr stable_argsort demo_artifacts demo_vitals =
      respond stable_argsort demo_artifacts False
        (case scaler demo_artifacts of
           None \<Rightarrow> vitals_vector demo_vitals
         | Some transform \<Rightarrow>
             (case transform (vitals_vector demo_vitals) of
                Some scaled \<Rightarrow> scaled
              | None \<Rightarrow> vitals_vector demo_vitals))"
    using feature_path_and_scaling [of demo_vitals "[]" demo_artifacts no_repr stable_argsort] nh by blast
  show ?thesis
    using g h nh p1 p2 voc
    by (simp add: sc demo_scaled demo_matching as_floats_def)
qed

section \<open>Requests in symptom mode\<close>

lemma symptoms_only_same:
  "d' ''symptoms'' = d ''symptoms'' \<Longrightarrow> symptoms_only d' = symptoms_only d"
  by (simp add: symptoms_only_def get_def)

lemma check_symptoms_same:
  "d' ''symptoms'' = d ''symptoms'' \<Longrightarrow> check_symptoms d' = check_symptoms d"
  by (simp add: check_symptoms_def get_def)

lemma unless_True: "unless True chk = Inr ()"
  by (simp add: unless_def)

lemma and_then_ok: "and_then (Inr ()) r = r"
  by (simp add: and_then_def)

lemma validate_symptoms_only:
  "symptoms_only d \<Longrightarrow> validate_prediction_input d = check_symptoms d"
  unfolding validate_prediction_input_def Let_def
  by (simp only: unless_True and_then_ok)

text \<open>What \<open>respond\<close> returns is the classifier's answer on the array it is given.\<close>

lemma respond_classifier_error:
  "model_predict b features = Inl e \<Longrightarrow> respond srt b used features = Inl e"
  by (simp add: respond_def)

lemma respond_classifier_code:
  "respond srt b used features = Inr r \<Longrightarrow> model_predict b features = Inr (disease_code r)"
  by (auto simp: respond_def Let_def split: sum.splits)

text \<open>
  C9. For a request in symptom mode, validation is the check of the symptom list
  alone: its outcome is that of every request with the same \<open>symptoms\<close>, whatever
  the vitals fields hold. When no symptom matches, \<open>predict\<close> calls the classifier
  on the seven vitals fields of the request as they are, 0 standing for a missing
  field (after the scaler's transform when there is a scaler): an error of the
  classifier on that array is the error of \<open>predict\<close>, and the class code of a
  result is the classifier's answer on that array.
\<close>

theorem symptoms_only_skips_vitals_checks:
  assumes "symptoms_only d"
  shows "validate_prediction_input d = check_symptoms d \<and>
         (\<forall>d'. d' ''symptoms'' = d ''symptoms'' \<longrightarrow>
               validate_prediction_input d' = validate_prediction_input d) \<and>
         (\<forall>syms. get d ''symptoms'' PNone = PList syms \<and>
                 matched (run_matching rp (symptom_vocabulary b) syms) = [] \<longrightarrow>
               predict rp srt b d =
                 respond srt b False
                   (scale_features b False
                      [get d ''age'' (PInt 0), get d ''gender'' (PInt 0),
                       get d ''weight'' (PInt 0), get d ''blood_pressure_systolic'' (PInt 0),
                       get d ''blood_pressure_diastolic'' (PInt 0),
                       get d ''glucose'' (PInt 0), get d ''cholesterol'' (PInt 0)]) \<and>
               (\<forall>e. model_predict b
                      (scale_features b False
                         [get d ''age'' (PInt 0), get d ''gender'' (PInt 0),
                          get d ''weight'' (PInt 0), get d ''blood_pressure_systolic'' (PInt 0),
                          get d ''blood_pressure_diastolic'' (PInt 0),
                          get d ''glucose'' (PInt 0), get d ''cholesterol'' (PInt 0)]) = Inl e
                    \<longrightarrow> predict rp srt b d = Inl e) \<and>
               (\<forall>r. predict rp srt b d = Inr r \<longrightarrow>
                    model_predict b
                      (scale_features b False
                         [get d ''age'' (PInt 0), get d ''gender'' (PInt 0),
                          get d ''weight'' (PInt 0), get d ''blood_pressure_systolic'' (PInt 0),
                          get d ''blood_pressure_diastolic'' (PInt 0),
                          get d ''glucose'' (PInt 0), get d ''cholesterol'' (PInt 0)])
                      = Inr (disease_code r)))"
proof -
  let ?vec = "[get d ''age'' (PInt 0), get d ''gender'' (PInt 0),
               get d ''weight'' (PInt 0), get d ''blood_pressure_systolic'' (PInt 0),
               get d ''blood_pressure_diastolic'' (PInt 0),
               get d ''glucose'' (PInt 0), get d ''cholesterol'' (PInt 0)]"
  have vec: "vitals_vector d = ?vec" by (simp add: vitals_vector_def)
  have first: "validate_prediction_input d = check_symptoms d"
    using assms by (rule validate_symptoms_only)
  have second: "validate_prediction_input d' = validate_prediction_input d"
    if same: "d' ''symptoms'' = d ''symptoms''" for d'
  proof -
    have "symptoms_only d' = symptoms_only d" using same by (rule symptoms_only_same [of d' d])
    then have "symptoms_only d'" using assms by simp
    then have "validate_prediction_input d' = check_symptoms d'"
      by (rule validate_symptoms_only)
    also have "\<dots> = check_symptoms d" using same by (rule check_symptoms_same [of d' d])
    also have "\<dots> = validate_prediction_input d"
      using assms by (rule validate_symptoms_only [symmetric])
    finally show ?thesis .
  qed
  have third: "predict rp srt b d = respond srt b False (scale_features b False ?vec) \<and>
       (\<forall>e. model_predict b (scale_features b False ?vec) = Inl e \<longrightarrow> predict rp srt b d = Inl e) \<and>
       (\<forall>r. predict rp srt b d = Inr r \<longrightarrow>
            model_predict b (scale_features b False ?vec) = Inr (disease_code r))"
    if nomatch: "get d ''symptoms'' PNone = PList syms \<and>
          matched (run_matching rp (symptom_vocabulary b) syms) = []" for syms
  proof -
    have "select_features rp b d = (vitals_vector d, False)"
      using nomatch fallback_on_no_match [of d syms rp b] by blast
    then have p: "predict rp srt b d = respond srt b False (scale_features b False ?vec)"
      by (simp only: predict_respond fst_conv snd_conv vec)
    have e: "\<forall>e. model_predict b (scale_features b False ?vec) = Inl e \<longrightarrow> predict rp srt b d = Inl e"
      unfolding p by (blast intro: respond_classifier_error)
    have r: "\<forall>r. predict rp srt b d = Inr r \<longrightarrow>
            model_predict b (scale_features b False ?vec) = Inr (disease_code r)"
      unfolding p by (blast intro: respond_classifier_code)
    show ?thesis using p e r by blast
  qed
  show ?thesis using first second third by blast
qed

lemma demo_no_match:
  "run_matching no_repr [''chest pain'', ''fever''] [PStr ''qwerty''] =
     \<lparr>feature_vec = [0, 0], matched = [], unmatched = [PStr ''qwerty'']\<rparr>"
  by code_simp

lemma demo_check: "check_symptoms demo_out_of_range = Inr [PStr ''qwerty'']"
  unfolding demo_out_of_range_def by code_simp

lemma echo_out_of_range:
  "echo_classifier [PInt 9999, PInt 0, PInt 0, PInt 0, PInt 0, PInt (- 5), PInt 0] = Inr 9994"
  by (simp add: echo_classifier_def)

lemma echo_zeros:
  "echo_classifier [PInt 0, PInt 0, PInt 0, PInt 0, PInt 0, PInt 0, PInt 0] = Inr 0"
  by (simp add: echo_classifier_def)

text \<open>
  C9, witness: \<open>{"symptoms": ["qwerty"], "age": 9999, "glucose": -5}\<close> is valid, as
  is the same request without vitals. A classifier that answers the sum of the integer
  entries of its input answers 9994 on it, and that is the class code of the result;
  on seven zeros it would answer 0.
\<close>

theorem symptoms_only_skips_vitals_checks_witness:
  "symptoms_only demo_out_of_range
   \<and> validate_prediction_input demo_out_of_range = Inr [PStr ''qwerty'']
   \<and> validate_prediction_input [''symptoms'' \<mapsto> PList [PStr ''qwerty'']]
       = validate_prediction_input demo_out_of_range
   \<and> matched (run_matching no_repr (symptom_vocabulary demo_echo) [PStr ''qwerty'']) = []
   \<and> predict no_repr stable_argsort demo_echo demo_out_of_range
       = respond stable_argsort demo_echo False
           [PInt 9999, PInt 0, PInt 0, PInt 0, PInt 0, PInt (- 5), PInt 0]
   \<and> (\<exists>r. predict no_repr stable_argsort demo_echo demo_out_of_range = Inr r \<and>
           disease_code r = 9994)
   \<and> model_predict demo_echo [PInt 0, PInt 0, PInt 0, PInt 0, PInt 0, PInt 0, PInt 0] = Inr 0"
proof -
  let ?vec = "[PInt 9999, PInt 0, PInt 0, PInt 0, PInt 0, PInt (- 5), PInt 0]"
  have so: "symptoms_only demo_out_of_range"
    by (simp add: symptoms_only_def demo_out_of_range_def get_def)
  have voc: "symptom_vocabulary demo_echo = [''chest pain'', ''fever'']"
    by (simp add: demo_echo_def demo_artifacts_def)
  have mp: "model_predict demo_echo = echo_classifier"
    by (simp add: demo_echo_def demo_artifacts_def)
  have g: "get demo_out_of_range ''symptoms'' PNone = PList [PStr ''qwerty'']"
    by (simp add: demo_out_of_range_def get_def)
  have m: "matched (run_matching no_repr (symptom_vocabulary demo_echo) [PStr ''qwerty'']) = []"
    by (simp add: voc demo_no_match)
  have same: "[''symptoms'' \<mapsto> PList [PStr ''qwerty'']] ''symptoms'' = demo_out_of_range ''symptoms''"
    by (simp add: demo_out_of_range_def)
  have vv: "scale_features demo_echo False
        [get demo_out_of_range ''age'' (PInt 0), get demo_out_of_range ''gender'' (PInt 0),
         get demo_out_of_range ''weight'' (PInt 0),
         get demo_out_of_range ''blood_pressure_systolic'' (PInt 0),
         get demo_out_of_range ''blood_pressure_diastolic'' (PInt 0),
         get demo_out_of_range ''glucose'' (PInt 0),
         get demo_out_of_range ''cholesterol'' (PInt 0)] = ?vec"
    by (simp add: scale_features_def demo_echo_def demo_artifacts_def demo_out_of_range_def get_def)
  note inst = symptoms_only_skips_vitals_checks [OF so, of no_repr demo_echo stable_argsort]
  have v: "validate_prediction_input demo_out_of_range = Inr [PStr ''qwerty'']"
    using inst demo_check by simp
  have v': "validate_prediction_input [''symptoms'' \<mapsto> PList [PStr ''qwerty'']]
       = validate_prediction_input demo_out_of_range"
    using inst same by blast
  have p: "predict no_repr stable_argsort demo_echo demo_out_of_range
       = respond stable_argsort demo_echo False ?vec"
    using inst g m unfolding vv by blast
  have code: "\<forall>r. predict no_repr stable_argsort demo_echo demo_out_of_range = Inr r \<longrightarrow>
       model_predict demo_echo ?vec = Inr (disease_code r)"
    using inst g m unfolding vv by blast
  have "\<exists>r. respond stable_argsort demo_echo False ?vec = Inr r"
    by (simp add: respond_def mp echo_out_of_range confidence_of_def demo_echo_def
        demo_artifacts_def)
  then obtain r where r: "predict no_repr stable_argsort demo_echo demo_out_of_range = Inr r"
    unfolding p by blast
  then have "model_predict demo_echo ?vec = Inr (disease_code r)" using code by blast
  then have "disease_code r = 9994" by (simp add: mp echo_out_of_range)
  then have ex: "\<exists>r. predict no_repr stable_argsort demo_echo demo_out_of_range = Inr r \<and>
           disease_code r = 9994"
    using r by blast
  have z: "model_predict demo_echo [PInt 0, PInt 0, PInt 0, PInt 0, PInt 0, PInt 0, PInt 0] = Inr 0"
    by (simp add: mp echo_zeros)
  show ?thesis using so v v' m p ex z by blast
qed

section \<open>The ranked list\<close>

lemma length_top_indices:
  assumes "distinct (srt ps)" and "set (srt ps) = {0..<length ps}"
  shows "length (top_indices srt ps) = min 5 (length ps)"
proof -
  have "length (srt ps) = card (set (srt ps))"
    using assms(1) by (simp add: distinct_card)
  then have "length (srt ps) = length ps" using assms(2) by simp
  then show ?thesis by (simp add: top_indices_def)
qed

lemma rev_descending:
  assumes "sorted (map (\<lambda>i. ps ! i) (srt ps))"
  shows "sorted_wrt (\<lambda>i j. (ps ! i :: real) \<ge> ps ! j) (rev (srt ps))"
proof -
  have "sorted_wrt (\<lambda>i j. ps ! i \<le> ps ! j) (srt ps)"
    using assms by (simp add: sorted_map)
  then have "sorted_wrt (\<lambda>j i. ps ! i \<le> ps ! j) (rev (srt ps))"
    by (simp add: sorted_wrt_rev)
  then show ?thesis by simp
qed

lemma py_round_close: "\<bar>py_round nd x - x\<bar> \<le> 1 / (2 * 10 ^ nd)"
proof -
  define y where "y = x * 10 ^ nd"
  define f where "f = \<lfloor>y\<rfloor>"
  define r where "r = y - of_int f"
  define q where "q = (if r < 1 / 2 then f else if r > 1 / 2 then f + 1
               else if even f then f else f + 1)"
  have r0: "0 \<le> r" and r1: "r < 1" unfolding r_def f_def by linarith+
  have close: "\<bar>of_int q - y\<bar> \<le> 1 / 2"
    unfolding q_def using r0 r1 by (auto simp: r_def)
  have "py_round nd x = of_int q / 10 ^ nd"
    by (simp add: py_round_def Let_def y_def f_def r_def q_def)
  moreover have "x = y / 10 ^ nd" by (simp add: y_def)
  ultimately have "py_round nd x - x = (of_int q - y) / 10 ^ nd"
    by (simp add: diff_divide_distrib)
  then have "\<bar>py_round nd x - x\<bar> = \<bar>of_int q - y\<bar> / 10 ^ nd"
    by (simp add: abs_divide)
  also have "\<dots> \<le> (1 / 2) / 10 ^ nd"
    using close by (rule divide_right_mono) simp
  finally show ?thesis by simp
qed

lemma py_round_grid: "\<exists>z::int. py_round nd x = of_int z / 10 ^ nd"
  unfolding py_round_def Let_def by blast

text \<open>
  C5, as the code has it. Whatever order \<open>np.argsort\<close> gives to equal values, the
  ranked list has \<open>min(5, n)\<close> entries, one for each of the first indices of the
  classes in descending order of probability; an entry pairs the label of its class
  (from the encoder \<open>disease\<close>, else from the encoder \<open>target\<close>, else the index
  printed) with the probability rounded to 4 decimal places. Classes of equal
  probability appear in the reverse of the order \<open>np.argsort\<close> returned them in.
\<close>

theorem top_k_ranking:
  assumes "distinct (srt ps)"
      and "set (srt ps) = {0..<length ps}"
      and "sorted (map (\<lambda>i. ps ! i) (srt ps))"
  shows "length (build_top_k srt b ps) = min 5 (length ps) \<and>
   map snd (build_top_k srt b ps) = map (\<lambda>i. py_round 4 (ps ! i)) (top_indices srt ps) \<and>
   map fst (build_top_k srt b ps) =
     map (\<lambda>i. case label_encoders b ''disease'' of
                 Some classes \<Rightarrow> label_of classes i
               | None \<Rightarrow>
                   (case label_encoders b ''target'' of
                      Some classes \<Rightarrow> label_of classes i
                    | None \<Rightarrow> str_nat i)) (top_indices srt ps) \<and>
   top_indices srt ps = take (min 5 (length ps)) (rev (srt ps)) \<and>
   distinct (rev (srt ps)) \<and> set (rev (srt ps)) = {0..<length ps} \<and>
   sorted_wrt (\<lambda>i j. ps ! i \<ge> ps ! j) (rev (srt ps)) \<and>
   sorted_wrt (\<lambda>i j. ps ! i \<ge> ps ! j) (top_indices srt ps) \<and>
   \<bar>py_round 4 p - p\<bar> \<le> 1 / 20000 \<and>
   (\<exists>z::int. py_round 4 p = of_int z / 10000)"
proof -
  have len: "length (build_top_k srt b ps) = min 5 (length ps)"
    using length_top_indices [of srt ps] assms(1) assms(2) by (simp add: build_top_k_def Let_def)
  have probs: "map snd (build_top_k srt b ps) = map (\<lambda>i. py_round 4 (ps ! i)) (top_indices srt ps)"
    by (simp add: build_top_k_def Let_def comp_def)
  have labels: "map fst (build_top_k srt b ps) =
     map (\<lambda>i. case label_encoders b ''disease'' of
                 Some classes \<Rightarrow> label_of classes i
               | None \<Rightarrow>
                   (case label_encoders b ''target'' of
                      Some classes \<Rightarrow> label_of classes i
                    | None \<Rightarrow> str_nat i)) (top_indices srt ps)"
    by (simp add: build_top_k_def Let_def comp_def class_labels_def label_of_def
        split: option.splits)
  have full: "sorted_wrt (\<lambda>i j. ps ! i \<ge> ps ! j) (rev (srt ps))"
    using assms(3) rev_descending [of ps srt] by blast
  have top: "sorted_wrt (\<lambda>i j. ps ! i \<ge> ps ! j) (top_indices srt ps)"
    unfolding top_indices_def using full by (rule sorted_wrt_take)
  have dist: "distinct (rev (srt ps))" using assms(1) by simp
  have allidx: "set (rev (srt ps)) = {0..<length ps}" using assms(2) by simp
  have close: "\<bar>py_round 4 p - p\<bar> \<le> 1 / 20000"
    using py_round_close [of 4 p] by simp
  have grid: "\<exists>z::int. py_round 4 p = of_int z / 10000"
    using py_round_grid [of 4 p] by simp
  have ti: "top_indices srt ps = take (min 5 (length ps)) (rev (srt ps))"
    by (simp add: top_indices_def)
  show ?thesis
    using len probs labels ti dist allidx full top close grid by blast
qed

text \<open>The hypotheses on \<open>np.argsort\<close> hold of the stable order, for every row.\<close>

lemma stable_argsort_ascending:
  "distinct (stable_argsort ps) \<and> set (stable_argsort ps) = {0..<length ps} \<and>
   sorted (map (\<lambda>i. ps ! i) (stable_argsort ps))"
  by (simp add: stable_argsort_def)

lemma round_half: "py_round 4 (1 / 2) = 1 / 2"
  by (simp add: py_round_def Let_def)

lemma round_quarter: "py_round 4 (1 / 4) = 1 / 4"
  by (simp add: py_round_def Let_def)

lemma stable_three: "stable_argsort [1 / 4, 1 / 2, 1 / 4] = [0, 2, 1]"
  by (simp add: stable_argsort_def)

lemma stable_tie: "stable_argsort [1 / 2, 1 / 2] = [0, 1]"
  by (simp add: stable_argsort_def)

text \<open>
  They hold as well of the order \<open>[1, 0]\<close> of the row \<open>[0.5, 0.5]\<close>, with which
  class 0 is listed before class 1: the order of equal classes is that of the sort.
\<close>

lemma tie_order_follows_sort:
  "distinct [1, 0 :: nat] \<and> set [1, 0 :: nat] = {0..<length [1 / 2, 1 / 2 :: real]} \<and>
   sorted (map (\<lambda>i. [1 / 2, 1 / 2 :: real] ! i) [1, 0]) \<and>
   build_top_k (\<lambda>ps. [1, 0]) demo_unscaled [1 / 2, 1 / 2] = [(''0'', 1 / 2), (''1'', 1 / 2)]"
proof -
  have a: "set [1, 0 :: nat] = {0..<length [1 / 2, 1 / 2 :: real]}" by auto
  have t: "build_top_k (\<lambda>ps. [1, 0]) demo_unscaled [1 / 2, 1 / 2] = [(''0'', 1 / 2), (''1'', 1 / 2)]"
    by (simp add: build_top_k_def Let_def top_indices_def class_labels_def label_of_def
        demo_unscaled_def demo_artifacts_def str_nat_digit round_half)
  show ?thesis using a t by simp
qed

text \<open>
  C5, witness: for the three probabilities \<open>[0.25, 0.5, 0.25]\<close>, the classes
  \<open>flu\<close>, \<open>cold\<close>, \<open>covid\<close> and the order \<open>[0, 2, 1]\<close> of \<open>np.argsort\<close> the list
  has three entries, \<open>cold\<close> first.
\<close>

theorem top_k_ranking_witness:
  "distinct (stable_argsort [1 / 4, 1 / 2, 1 / 4])
   \<and> set (stable_argsort [1 / 4, 1 / 2, 1 / 4]) = {0..<length [1 / 4, 1 / 2, 1 / 4 :: real]}
   \<and> sorted (map (\<lambda>i. [1 / 4, 1 / 2, 1 / 4 :: real] ! i) (stable_argsort [1 / 4, 1 / 2, 1 / 4]))
   \<and> length (build_top_k stable_argsort
        (demo_artifacts\<lparr>label_encoders := [''disease'' \<mapsto> [''flu'', ''cold'', ''covid'']]\<rparr>)
        [1 / 4, 1 / 2, 1 / 4]) = 3
   \<and> map fst (build_top_k stable_argsort
        (demo_artifacts\<lparr>label_encoders := [''disease'' \<mapsto> [''flu'', ''cold'', ''covid'']]\<rparr>)
        [1 / 4, 1 / 2, 1 / 4]) = [''cold'', ''covid'', ''flu'']
   \<and> map snd (build_top_k stable_argsort
        (demo_artifacts\<lparr>label_encoders := [''disease'' \<mapsto> [''flu'', ''cold'', ''covid'']]\<rparr>)
        [1 / 4, 1 / 2, 1 / 4]) = [1 / 2, 1 / 4, 1 / 4]"
proof -
  have d: "distinct (stable_argsort [1 / 4, 1 / 2, 1 / 4])"
    by (simp add: stable_three)
  have a: "set (stable_argsort [1 / 4, 1 / 2, 1 / 4]) = {0..<length [1 / 4, 1 / 2, 1 / 4 :: real]}"
    by (auto simp: stable_three)
  have o: "sorted (map (\<lambda>i. [1 / 4, 1 / 2, 1 / 4 :: real] ! i) (stable_argsort [1 / 4, 1 / 2, 1 / 4]))"
    by (simp add: stable_three)
  show ?thesis
    using d a o top_k_ranking [of stable_argsort "[1 / 4, 1 / 2, 1 / 4]"
        "demo_artifacts\<lparr>label_encoders := [''disease'' \<mapsto> [''flu'', ''cold'', ''covid'']]\<rparr>" 0]
    by (simp add: stable_three label_of_def round_half round_quarter top_indices_def)
qed

text \<open>
  C5, counterexample to the claim as stated: \<open>[0, 1]\<close> is an ascending order of the
  two probabilities \<open>[0.5, 0.5]\<close>, and with it class 1 is listed before class 0.
\<close>

theorem top_k_tie_order_counterexample:
  "distinct (stable_argsort [1 / 2, 1 / 2])
   \<and> set (stable_argsort [1 / 2, 1 / 2]) = {0..<length [1 / 2, 1 / 2 :: real]}
   \<and> sorted (map (\<lambda>i. [1 / 2, 1 / 2 :: real] ! i) (stable_argsort [1 / 2, 1 / 2]))
   \<and> build_top_k stable_argsort demo_unscaled [1 / 2, 1 / 2] = [(''1'', 1 / 2), (''0'', 1 / 2)]"
proof -
  have a: "set (stable_argsort [1 / 2, 1 / 2]) = {0..<length [1 / 2, 1 / 2 :: real]}"
    by (auto simp: stable_tie)
  have t: "build_top_k stable_argsort demo_unscaled [1 / 2, 1 / 2] = [(''1'', 1 / 2), (''0'', 1 / 2)]"
    by (simp add: build_top_k_def Let_def top_indices_def stable_tie class_labels_def label_of_def
        demo_unscaled_def demo_artifacts_def str_nat_digit round_half)
  show ?thesis using a t by (simp add: stable_tie)
qed

end
